theory Spec2Isabelle
  imports Main "HOL-Library.Word"
begin

section \<open>The VaaS hook of the mesos executor (hook/vaas/hook.go)\<close>

text \<open>
  The hook keeps one Varnish backend registered in VaaS while a service instance runs.
  Its file calls collaborators that are declared elsewhere: the VaaS client (an
  interface), the task-info accessors of package mesosutils, the runtime facts of
  package runenv, and Go's standard library (strconv, fmt, time). Each of them is a
  parameter of the model, so every theorem holds for all their behaviours; only the
  standard library functions whose results the hook inspects are written out.
\<close>

subsection \<open>Errors and results\<close>

text \<open>
  A Go error is its message: the hook only passes errors on, or formats them with
  \<^verbatim>\<open>%s\<close>. A nil error is \<open>None\<close>.
\<close>

datatype error = Error string

fun msg :: "error \<Rightarrow> string" where
  "msg (Error s) = s"

text \<open>What \<^verbatim>\<open>%s\<close> prints for an error operand; for a nil one fmt prints \<^verbatim>\<open>%!s(<nil>)\<close>.\<close>

fun fmt_s :: "error option \<Rightarrow> string" where
  "fmt_s None = ''%!s(<nil>)''"
| "fmt_s (Some e) = msg e"

text \<open>A call of the hook either returns its error value or panics (a nil dereference).\<close>

datatype outcome = Return "error option" | Panic string

subsection \<open>strconv and fmt\<close>

definition is_digit :: "char \<Rightarrow> bool" where
  "is_digit c = (48 \<le> (of_char c :: nat) \<and> (of_char c :: nat) \<le> 57)"

definition digit_val :: "char \<Rightarrow> nat" where
  "digit_val c = (of_char c :: nat) - 48"

definition parse_digits :: "string \<Rightarrow> nat" where
  "parse_digits ds = foldl (\<lambda>acc c. 10 * acc + digit_val c) 0 ds"

text \<open>
  \<^verbatim>\<open>strconv.Atoi\<close>: an optional sign, then one or more decimal digits, and a value
  that fits Go's 64-bit int. \<open>None\<close> stands for a non-nil error, which the hook only
  compares with nil.
\<close>

definition Atoi :: "string \<Rightarrow> int option" where
  "Atoi s =
     (let (neg, ds) =
        (case s of
           [] \<Rightarrow> (False, [])
         | c # cs \<Rightarrow>
             if c = CHR ''+'' then (False, cs)
             else if c = CHR ''-'' then (True, cs)
             else (False, s))
      in if ds = [] then None
         else if list_all is_digit ds then
           (let n = int (parse_digits ds); v = (if neg then - n else n)
            in if v < - (2 ^ 63) then None
               else if 2 ^ 63 - 1 < v then None
               else Some v)
         else None)"

definition digit_char :: "nat \<Rightarrow> char" where
  "digit_char d = ''0123456789'' ! d"

function show_nat :: "nat \<Rightarrow> string" where
  "show_nat n = (if n < 10 then [digit_char n] else show_nat (n div 10) @ [digit_char (n mod 10)])"
  by pat_completeness auto
termination
  by (relation "measure id") auto

text \<open>What \<^verbatim>\<open>%d\<close> prints for an int.\<close>

definition fmt_d :: "int \<Rightarrow> string" where
  "fmt_d i = (if i < 0 then CHR ''-'' # show_nat (nat (- i)) else show_nat (nat i))"

subsection \<open>Data of the VaaS client\<close>

text \<open>
  The datacenter descriptor is never inspected by the hook. A task's status is one of
  the three named constants or any other value the control plane reports.
\<close>

datatype DC = MkDC nat

datatype Status = StatusPending | StatusSuccess | StatusFailure | StatusOther string

record Task =
  ResourceURI :: string
  Status :: Status
  Info :: string

record Backend =
  ID :: "int option"
  Address :: string
  Director :: string
  Weight :: "int option"
  DC :: DC
  Port :: int
  InheritTimeProfile :: bool
  Tags :: "string list"

text \<open>
  The client is an interface; its state (the control plane, the network) is a type
  parameter \<open>'c\<close> threaded through every call. A Go result \<^verbatim>\<open>(T, error)\<close> is a sum:
  the hook reads the value only when the error is nil. \<open>AddBackend\<close> and
  \<open>TaskStatus\<close> receive a pointer, so they also return the object as they leave it.
  \<open>TaskStatus\<close> returns, last, the time its call took, in nanoseconds.
\<close>

record 'c Client =
  GetDC :: "string \<Rightarrow> 'c \<Rightarrow> (error + DC option) \<times> 'c"
  FindDirectorID :: "string \<Rightarrow> 'c \<Rightarrow> (error + int) \<times> 'c"
  AddBackend :: "Backend \<Rightarrow> bool \<Rightarrow> 'c \<Rightarrow> (Backend \<times> (error + string)) \<times> 'c"
  DeleteBackend :: "int \<Rightarrow> 'c \<Rightarrow> error option \<times> 'c"
  TaskStatus :: "Task \<Rightarrow> 'c \<Rightarrow> (Task \<times> error option \<times> nat) \<times> 'c"

subsection \<open>Task info and runtime facts\<close>

record Port =
  Number :: "32 word"

text \<open>
  The task info is read through four accessors of package mesosutils only; the record
  holds what each of them answers for this task.
\<close>

record TaskInfo =
  GetLabelValue :: "string \<Rightarrow> string"
  GetPorts :: "Port list"
  GetWeight :: "error + int"
  FindEnvValue :: "string \<Rightarrow> string"

text \<open>Package runenv, and the path constant of the client's file.\<close>

record runenv =
  Datacenter :: "error + string"
  IP :: string
  apiDirectorPath :: string

subsection \<open>The hook\<close>

definition vaasDirectorLabelKey :: string where
  "vaasDirectorLabelKey = ''director''"

definition vaasAsyncLabelKey :: string where
  "vaasAsyncLabelKey = ''vaas-queue''"

definition vaasInitialWeight :: string where
  "vaasInitialWeight = ''VAAS_INITIAL_WEIGHT''"

definition canaryLabelKey :: string where
  "canaryLabelKey = ''canary''"

record 'c Hook =
  backendID :: "int option"
  client :: "'c Client"

text \<open>
  What a call does besides returning: the client calls it issues, in order, and its
  writes to the hook's \<open>backendID\<close>. A status poll carries the time it started at
  (nanoseconds since the poller started), the task as the call left it and the error
  the call returned.
\<close>

datatype event =
    EvGetDC string
  | EvFindDirectorID string
  | EvAddBackend Backend bool
  | EvDeleteBackend int
  | EvTaskStatus nat Task "error option"
  | EvSetBackendID "int option"

subsubsection \<open>DeregisterBackend\<close>

definition DeregisterBackend ::
  "'c Hook \<Rightarrow> TaskInfo \<Rightarrow> 'c \<Rightarrow> error option \<times> 'c Hook \<times> 'c \<times> event list" where
  "DeregisterBackend sh taskInfo c =
     (case backendID sh of
        Some i \<Rightarrow>
          (case DeleteBackend (client sh) i c of
             (Some err, c') \<Rightarrow> (Some err, sh, c', [EvDeleteBackend i])
           | (None, c') \<Rightarrow>
               (None, sh\<lparr>backendID := None\<rparr>, c', [EvDeleteBackend i, EvSetBackendID None]))
      | None \<Rightarrow> (None, sh, c, []))"

subsubsection \<open>watchTaskStatus\<close>

text \<open>
  Time is in nanoseconds, as \<^verbatim>\<open>time.Duration\<close> is, counted from the moment the poller
  creates its ticker and its timer.
\<close>

definition Second :: nat where
  "Second = 1000000000"

text \<open>The two channels the loop's \<^verbatim>\<open>select\<close> receives from.\<close>

datatype select_case = TimerC | TickerC

text \<open>
  \<^verbatim>\<open>select\<close> at time \<open>now\<close>. The ticker's channel can be received from at
  \<open>next_tick\<close> or any time later (it buffers one tick and drops the others), the
  timer's channel from 90 seconds on. The select blocks until one of them can proceed
  and takes the one that can proceed first; when both can proceed at the same instant,
  Go picks one at random: \<open>pick\<close> is that choice. The result is the case taken and the
  time it is taken at.
\<close>

definition select_chan :: "select_case \<Rightarrow> nat \<Rightarrow> nat \<Rightarrow> select_case \<times> nat" where
  "select_chan pick now next_tick =
     (let t_tick = max now next_tick; t_timer = max now (90 * Second)
      in if t_tick < t_timer then (TickerC, t_tick)
         else if t_timer < t_tick then (TimerC, t_timer)
         else (pick, t_tick))"

text \<open>The first tick a one-second ticker delivers after a receive at time \<open>t\<close>.\<close>

definition tick_after :: "nat \<Rightarrow> nat" where
  "tick_after t = (t div Second + 1) * Second"

definition emit ::
  "event \<Rightarrow> ('a \<times> 'b \<times> 'c \<times> event list) option \<Rightarrow> ('a \<times> 'b \<times> 'c \<times> event list) option" where
  "emit ev r = map_option (\<lambda>(e, t, c, evs). (e, t, c, ev # evs)) r"

text \<open>
  The loop. \<open>picks\<close> holds, for each iteration in turn, the random choice of its
  select; the loop may run for ever (a client that is slow for ever and a select that
  never picks the timer), so a run that needs more iterations than \<open>picks\<close> has
  entries is \<open>None\<close>. \<open>now\<close> is the time the iteration reaches its select at.
\<close>

fun watch_loop ::
  "'c Client \<Rightarrow> select_case list \<Rightarrow> nat \<Rightarrow> nat \<Rightarrow> Task \<Rightarrow> 'c
     \<Rightarrow> (error option \<times> Task \<times> 'c \<times> event list) option" where
  "watch_loop cl [] now next_tick task c = None"
| "watch_loop cl (pick # picks) now next_tick task c =
     (case select_chan pick now next_tick of
        (TimerC, t) \<Rightarrow> Some (Some (Error ''VaaS registration timed out''), task, c, [])
      | (TickerC, t) \<Rightarrow>
          (case TaskStatus cl task c of
             ((task', err, d), c') \<Rightarrow>
               if err \<noteq> None then
                 emit (EvTaskStatus t task' err)
                   (watch_loop cl picks (t + d) (tick_after t) task' c')
               else
                 (case Status task' of
                    StatusFailure \<Rightarrow>
                      Some (Some (Error (''Registration in VaaS failed: '' @ fmt_s err)),
                            task', c', [EvTaskStatus t task' err])
                  | StatusSuccess \<Rightarrow> Some (None, task', c', [EvTaskStatus t task' err])
                  | _ \<Rightarrow>
                      emit (EvTaskStatus t task' err)
                        (watch_loop cl picks (t + d) (tick_after t) task' c'))))"

definition watchTaskStatus ::
  "select_case list \<Rightarrow> 'c Hook \<Rightarrow> Task \<Rightarrow> 'c
     \<Rightarrow> (error option \<times> Task \<times> 'c \<times> event list) option" where
  "watchTaskStatus picks sh task c = watch_loop (client sh) picks 0 Second task c"

subsubsection \<open>RegisterBackend\<close>

text \<open>Lines 68 to 80: the weight label, then the environment variable over it.\<close>

definition initialWeight_of :: "TaskInfo \<Rightarrow> int option" where
  "initialWeight_of taskInfo =
     (let initialWeight = (case GetWeight taskInfo of Inl err \<Rightarrow> None | Inr weight \<Rightarrow> Some weight);
          initialWeightEnv = FindEnvValue taskInfo vaasInitialWeight
      in case Atoi initialWeightEnv of
           Some val \<Rightarrow> Some val
         | None \<Rightarrow> initialWeight)"

text \<open>Lines 85 to 89.\<close>

definition tags_of :: "TaskInfo \<Rightarrow> string list" where
  "tags_of taskInfo =
     (let isCanary = GetLabelValue taskInfo canaryLabelKey
      in if isCanary \<noteq> [] then [canaryLabelKey] else [])"

text \<open>Lines 91 to 99, for a datacenter pointer that is not nil and a first port.\<close>

definition backend_of :: "runenv \<Rightarrow> TaskInfo \<Rightarrow> DC \<Rightarrow> int \<Rightarrow> Port \<Rightarrow> Backend" where
  "backend_of env taskInfo dc directorID port0 =
     \<lparr>ID = None,
      Address = IP env,
      Director = apiDirectorPath env @ fmt_d directorID @ ''/'',
      Weight = initialWeight_of taskInfo,
      DC = dc,
      Port = uint (Number port0),
      InheritTimeProfile = True,
      Tags = tags_of taskInfo\<rparr>"

text \<open>Line 126 dereferences the hook's \<open>backendID\<close> for the log entry, then line 128 returns.\<close>

definition registered ::
  "'c Hook \<Rightarrow> 'c \<Rightarrow> event list \<Rightarrow> (outcome \<times> 'c Hook \<times> 'c \<times> event list) option" where
  "registered sh c evs =
     (case backendID sh of
        None \<Rightarrow> Some (Panic ''invalid memory address or nil pointer dereference'', sh, c, evs)
      | Some i \<Rightarrow> Some (Return None, sh, c, evs))"

text \<open>Lines 101 to 128: the submission, synchronous or asynchronous.\<close>

definition submit ::
  "select_case list \<Rightarrow> 'c Hook \<Rightarrow> TaskInfo \<Rightarrow> Backend \<Rightarrow> 'c
     \<Rightarrow> (outcome \<times> 'c Hook \<times> 'c \<times> event list) option" where
  "submit picks sh taskInfo backend c =
     (if GetLabelValue taskInfo vaasAsyncLabelKey = ''true'' then
        (case AddBackend (client sh) backend True c of
           ((backend', Inl err), c') \<Rightarrow>
             Some (Return (Some (Error (''Could not register with VaaS director: '' @ fmt_s (Some err)))),
                   sh, c', [EvAddBackend backend True])
         | ((backend', Inr taskURI), c') \<Rightarrow>
             (let sh' = sh\<lparr>backendID := ID backend'\<rparr>;
                  task = \<lparr>ResourceURI = taskURI, Status = StatusPending, Info = []\<rparr>
              in case watchTaskStatus picks sh' task c' of
                   None \<Rightarrow> None
                 | Some (Some err, task', c'', evs) \<Rightarrow>
                     Some (Return (Some (Error (''Could not register with VaaS director: '' @ fmt_s (Some err)))),
                           sh', c'', [EvAddBackend backend True, EvSetBackendID (ID backend')] @ evs)
                 | Some (None, task', c'', evs) \<Rightarrow>
                     registered sh' c'' ([EvAddBackend backend True, EvSetBackendID (ID backend')] @ evs)))
      else
        (case AddBackend (client sh) backend False c of
           ((backend', Inl err), c') \<Rightarrow> Some (Return (Some err), sh, c', [EvAddBackend backend False])
         | ((backend', Inr uri), c') \<Rightarrow>
             registered (sh\<lparr>backendID := ID backend'\<rparr>) c'
               [EvAddBackend backend False, EvSetBackendID (ID backend')]))"

definition after ::
  "event list \<Rightarrow> ('a \<times> 'b \<times> 'c \<times> event list) option \<Rightarrow> ('a \<times> 'b \<times> 'c \<times> event list) option" where
  "after pre r = map_option (\<lambda>(e, t, c, evs). (e, t, c, pre @ evs)) r"

definition RegisterBackend ::
  "runenv \<Rightarrow> select_case list \<Rightarrow> 'c Hook \<Rightarrow> TaskInfo \<Rightarrow> 'c
     \<Rightarrow> (outcome \<times> 'c Hook \<times> 'c \<times> event list) option" where
  "RegisterBackend env picks sh taskInfo c =
     (let director = GetLabelValue taskInfo vaasDirectorLabelKey
      in if director = [] then Some (Return None, sh, c, [])
         else
           (case Datacenter env of
              Inl err \<Rightarrow> Some (Return (Some err), sh, c, [])
            | Inr runtimeDC \<Rightarrow>
                (case GetDC (client sh) runtimeDC c of
                   (Inl err, c1) \<Rightarrow> Some (Return (Some err), sh, c1, [EvGetDC runtimeDC])
                 | (Inr dc, c1) \<Rightarrow>
                     (case FindDirectorID (client sh) director c1 of
                        (Inl err, c2) \<Rightarrow>
                          Some (Return (Some err), sh, c2, [EvGetDC runtimeDC, EvFindDirectorID director])
                      | (Inr directorID, c2) \<Rightarrow>
                          (case GetPorts taskInfo of
                             [] \<Rightarrow>
                               Some (Return (Some (Error ''Service has no ports available'')), sh, c2,
                                     [EvGetDC runtimeDC, EvFindDirectorID director])
                           | port0 # ports \<Rightarrow>
                               (case dc of
                                  None \<Rightarrow>
                                    Some (Panic ''invalid memory address or nil pointer dereference'', sh, c2,
                                          [EvGetDC runtimeDC, EvFindDirectorID director])
                                | Some dcv \<Rightarrow>
                                    after [EvGetDC runtimeDC, EvFindDirectorID director]
                                      (submit picks sh taskInfo
                                         (backend_of env taskInfo dcv directorID port0) c2)))))))"

subsection \<open>Reading a trace\<close>

text \<open>The calls to the control plane among the events of a run.\<close>

fun is_call :: "event \<Rightarrow> bool" where
  "is_call (EvSetBackendID i) = False"
| "is_call ev = True"

definition calls :: "event list \<Rightarrow> event list" where
  "calls evs = filter is_call evs"

text \<open>The writes to the hook's \<open>backendID\<close> among the events of a run.\<close>

definition writes :: "event list \<Rightarrow> event list" where
  "writes evs = filter (\<lambda>ev. \<not> is_call ev) evs"

text \<open>A poll that fetched a terminal state: no error, and status Success or Failure.\<close>

fun terminal :: "event \<Rightarrow> bool" where
  "terminal (EvTaskStatus t task err) =
     (err = None \<and> (Status task = StatusSuccess \<or> Status task = StatusFailure))"
| "terminal ev = False"

text \<open>The time a poll started at.\<close>

fun poll_time :: "event \<Rightarrow> nat" where
  "poll_time (EvTaskStatus t task err) = t"
| "poll_time ev = 0"

subsection \<open>A scripted client\<close>

text \<open>
  A client for concrete runs. Its state is a script: what \<open>AddBackend\<close> answers and
  the identifier it writes into the backend, the answers of the successive
  \<open>DeleteBackend\<close> calls (success once the list is used up), and the status, error and
  duration of the successive \<open>TaskStatus\<close> calls (an error once the list is used up).
\<close>

record sim =
  sim_add :: "error + string"
  sim_id :: "int option"
  sim_delete :: "error option list"
  sim_status :: "(Status \<times> error option \<times> nat) list"

definition simClient :: "sim Client" where
  "simClient =
     \<lparr>GetDC = (\<lambda>name c. (Inr (Some (MkDC 1)), c)),
      FindDirectorID = (\<lambda>name c. (Inr 7, c)),
      AddBackend = (\<lambda>b async c. ((b\<lparr>ID := sim_id c\<rparr>, sim_add c), c)),
      DeleteBackend = (\<lambda>i c.
        case sim_delete c of
          [] \<Rightarrow> (None, c)
        | r # rs \<Rightarrow> (r, c\<lparr>sim_delete := rs\<rparr>)),
      TaskStatus = (\<lambda>task c.
        case sim_status c of
          [] \<Rightarrow> ((task, Some (Error ''connection refused''), 0), c)
        | (st, err, d) # rs \<Rightarrow> ((task\<lparr>Status := st\<rparr>, err, d), c\<lparr>sim_status := rs\<rparr>))\<rparr>"

definition simHook :: "int option \<Rightarrow> sim Hook" where
  "simHook i = \<lparr>backendID = i, client = simClient\<rparr>"

definition simState :: "error option list \<Rightarrow> (Status \<times> error option \<times> nat) list \<Rightarrow> sim" where
  "simState ds ss = \<lparr>sim_add = Inr ''/api/v0.1/task/5'', sim_id = Some 42, sim_delete = ds, sim_status = ss\<rparr>"

definition simEnv :: runenv where
  "simEnv = \<lparr>Datacenter = Inr ''dc1'', IP = ''10.0.0.1'', apiDirectorPath = ''/api/v0.1/director/''\<rparr>"

text \<open>
  A task with director \<open>web\<close>, two ports, weight label 10, and the given values of the
  \<^verbatim>\<open>vaas-queue\<close> label and of the weight variable of its environment.
\<close>

definition simTask :: "string \<Rightarrow> string \<Rightarrow> TaskInfo" where
  "simTask queue weightEnv =
     \<lparr>GetLabelValue = (\<lambda>k. if k = ''director'' then ''web'' else if k = ''vaas-queue'' then queue else []),
      GetPorts = [\<lparr>Number = 8080\<rparr>, \<lparr>Number = 8081\<rparr>],
      GetWeight = Inr 10,
      FindEnvValue = (\<lambda>k. if k = ''VAAS_INITIAL_WEIGHT'' then weightEnv else [])\<rparr>"

section \<open>Deregistration\<close>

lemma DeregisterBackend_unset:
  "backendID sh = None \<Longrightarrow> DeregisterBackend sh taskInfo c = (None, sh, c, [])"
  by (simp add: DeregisterBackend_def)

lemma DeregisterBackend_deleted:
  "backendID sh = Some i \<Longrightarrow> DeleteBackend (client sh) i c = (None, c') \<Longrightarrow>
   DeregisterBackend sh taskInfo c =
     (None, sh\<lparr>backendID := None\<rparr>, c', [EvDeleteBackend i, EvSetBackendID None])"
  by (simp add: DeregisterBackend_def)

lemma DeregisterBackend_failed:
  "backendID sh = Some i \<Longrightarrow> DeleteBackend (client sh) i c = (Some err, c') \<Longrightarrow>
   DeregisterBackend sh taskInfo c = (Some err, sh, c', [EvDeleteBackend i])"
  by (simp add: DeregisterBackend_def)

lemma DeregisterBackend_first_call:
  "backendID sh = Some i \<Longrightarrow>
   \<exists>r sh' c' evs. DeregisterBackend sh taskInfo c = (r, sh', c', EvDeleteBackend i # evs)"
  by (cases "DeleteBackend (client sh) i c")
    (auto simp: DeregisterBackend_def split: option.splits)

text \<open>
  C5. Deregistration is idempotent. For a hook that holds an identifier \<open>i\<close> and a
  delete call that succeeds, two calls of \<open>DeregisterBackend\<close> in succession both
  return no error, the hook holds no identifier after the first, and the two calls
  together issue exactly one call to the control plane, the delete of \<open>i\<close>. For a
  hook that holds no identifier the call returns no error, changes nothing and issues
  no call.
\<close>

theorem DeregisterBackend_idempotent:
  "(backendID sh = Some i \<and> DeleteBackend (client sh) i c = (None, c') \<longrightarrow>
      (case DeregisterBackend sh taskInfo c of
         (r1, sh1, c1, evs1) \<Rightarrow>
           (case DeregisterBackend sh1 taskInfo' c1 of
              (r2, sh2, c2, evs2) \<Rightarrow>
                r1 = None \<and> r2 = None \<and> backendID sh1 = None \<and> backendID sh2 = None \<and>
                calls evs1 = [EvDeleteBackend i] \<and> calls (evs1 @ evs2) = [EvDeleteBackend i] \<and>
                evs2 = [] \<and> c2 = c1 \<and> c1 = c'))) \<and>
   (backendID sh = None \<longrightarrow> DeregisterBackend sh taskInfo c = (None, sh, c, []))"
  by (simp add: DeregisterBackend_deleted DeregisterBackend_unset calls_def)

theorem DeregisterBackend_idempotent_witness:
  "(case DeregisterBackend (simHook (Some 42)) (simTask [] []) (simState [] []) of
      (r1, sh1, c1, evs1) \<Rightarrow>
        (case DeregisterBackend sh1 (simTask [] []) c1 of
           (r2, sh2, c2, evs2) \<Rightarrow>
             r1 = None \<and> r2 = None \<and> backendID sh1 = None \<and>
             calls (evs1 @ evs2) = [EvDeleteBackend 42])) \<and>
   DeregisterBackend (simHook None) (simTask [] []) (simState [] []) =
     (None, simHook None, simState [] [], [])"
  using DeregisterBackend_idempotent
    [of "simHook (Some 42)" 42 "simState [] []" "simState [] []" "simTask [] []" "simTask [] []"]
    DeregisterBackend_idempotent
    [of "simHook None" 0 "simState [] []" "simState [] []" "simTask [] []" "simTask [] []"]
  by (simp add: simHook_def simClient_def simState_def split: prod.splits)

text \<open>
  C6. Deregistration is atomic on error. For a hook that holds an identifier \<open>i\<close>,
  when the delete call fails \<open>DeregisterBackend\<close> returns that error, has issued the
  one delete call, and leaves the hook as it was, still holding \<open>i\<close>; the next
  \<open>DeregisterBackend\<close> call starts with a delete of the same \<open>i\<close>.
\<close>

theorem DeregisterBackend_failure_keeps_state:
  "backendID sh = Some i \<Longrightarrow> DeleteBackend (client sh) i c = (Some err, c') \<Longrightarrow>
   DeregisterBackend sh taskInfo c = (Some err, sh, c', [EvDeleteBackend i]) \<and>
   (\<exists>r sh2 c2 evs. DeregisterBackend sh taskInfo' c' = (r, sh2, c2, EvDeleteBackend i # evs))"
  using DeregisterBackend_first_call [of sh i taskInfo' c']
  by (simp add: DeregisterBackend_failed)

theorem DeregisterBackend_failure_keeps_state_witness:
  "DeregisterBackend (simHook (Some 42)) (simTask [] []) (simState [Some (Error ''503'')] []) =
     (Some (Error ''503''), simHook (Some 42), simState [] [], [EvDeleteBackend 42]) \<and>
   (\<exists>r sh2 c2 evs. DeregisterBackend (simHook (Some 42)) (simTask [] []) (simState [] []) =
     (r, sh2, c2, EvDeleteBackend 42 # evs))"
  using DeregisterBackend_failure_keeps_state
    [of "simHook (Some 42)" 42 "simState [Some (Error ''503'')] []" "Error ''503''" "simState [] []"
        "simTask [] []" "simTask [] []"]
  by (simp add: simHook_def simClient_def simState_def)

text \<open>
  C8. The outcome and the effect of \<open>DeregisterBackend\<close> do not depend on the task
  info it is given: for every hook, every state of the control plane and every two
  task infos, the two calls return the same error value, leave the same hook and the
  same control plane, and issue the same calls.
\<close>

theorem DeregisterBackend_ignores_taskInfo:
  "DeregisterBackend sh taskInfo c = DeregisterBackend sh taskInfo' c"
  by (simp add: DeregisterBackend_def)

end
